theory Spec2Isabelle
  imports Main
begin

section \<open>Strings\<close>

text \<open>
  A Python \<open>str\<close> is modelled as a list of code points below 256. On that range
  \<open>str.lower()\<close> maps \<open>A..Z\<close> and the Latin-1 capitals (192..222 except the
  multiplication sign 215) to the code point 32 above and leaves everything else alone.
\<close>

definition is_upper :: "char \<Rightarrow> bool" where
  "is_upper c =
     (let n = (of_char c :: nat)
      in (65 \<le> n \<and> n \<le> 90) \<or> (192 \<le> n \<and> n \<le> 222 \<and> n \<noteq> 215))"

definition lower_char :: "char \<Rightarrow> char" where
  "lower_char c = (if is_upper c then char_of (of_char c + (32 :: nat)) else c)"

definition lower :: "string \<Rightarrow> string" where
  "lower s = map lower_char s"

section \<open>Exceptions\<close>

text \<open>
  \<open>HTTPException(status, detail)\<close> with the members of \<open>ERROR_MESSAGES\<close> the
  handlers name. \<open>DEFAULT(err)\<close> embeds the exception it reports. The callback's
  literal detail \<open>"Error in signin_callback"\<close> is \<open>SIGNIN_CALLBACK_ERROR\<close>.
\<close>

datatype exn =
    HTTPException nat detail
  | TypeError
  | AttributeError
and detail =
    DEFAULT "exn option"
  | INVALID_CRED
  | INVALID_PASSWORD
  | ACTION_PROHIBITED
  | INVALID_TRUSTED_HEADER
  | ACCESS_PROHIBITED
  | INVALID_EMAIL_FORMAT
  | EMAIL_TAKEN
  | CREATE_USER_ERROR
  | CREATE_API_KEY_ERROR
  | API_KEY_NOT_FOUND
  | SIGNIN_CALLBACK_ERROR

section \<open>Data model\<close>

record user =
  user_id :: string
  user_email :: string
  user_password_hash :: string
  user_name :: string
  user_role :: string
  user_profile_image_url :: string
  user_extra_sso :: "string option"
  user_api_key :: "string option"

text \<open>The session payload every token-issuing handler returns.\<close>

record signin_response =
  resp_token :: string
  resp_token_type :: string
  resp_id :: string
  resp_email :: string
  resp_name :: string
  resp_role :: string
  resp_profile_image_url :: string
  resp_extra_sso :: "string option"

record signup_form =
  form_email :: string
  form_password :: string
  form_name :: string
  form_profile_image_url :: string
  form_extra_sso :: "string option"

record signin_form =
  signin_email :: string
  signin_password :: string

record add_user_form =
  add_email :: string
  add_password :: string
  add_name :: string
  add_profile_image_url :: string
  add_role :: string

record update_password_form =
  upd_password :: string
  upd_new_password :: string

text \<open>
  The federated identity \<open>sso.verify_and_process\<close> hands back: the email (optional in
  the provider's model), the display name, and \<open>json.dumps\<close> of the object with the
  access token attached.
\<close>

record sso_user =
  sso_email :: "string option"
  sso_display_name :: string
  sso_user_json_str :: string

text \<open>
  The modules the handlers import that are not part of the sources at hand, taken as
  parameters: \<open>utils.misc.validate_email_format\<close>, \<open>utils.utils.get_password_hash\<close>
  and the hasher's verification, \<open>utils.utils.create_token\<close> applied to the user id
  and the configured expiry (\<open>None\<close> when the handler passes no expiry), whether a
  webhook post to a URL is delivered, the message \<open>WEBHOOK_MESSAGES.USER_SIGNUP\<close>
  builds from a name, the configuration constant
  \<open>WEBUI_AUTH_TRUSTED_EMAIL_HEADER\<close>, the default of the \<open>role\<close> parameter of
  \<open>Auths.insert_new_auth\<close> (\<open>None\<close>: the parameter has no default), and the defaults
  of the \<open>SignupForm\<close> fields \<open>profile_image_url\<close> and \<open>extra_sso\<close>.
\<close>

record env =
  validate_email_format :: "string \<Rightarrow> bool"
  get_password_hash :: "string \<Rightarrow> string"
  verify_password :: "string \<Rightarrow> string \<Rightarrow> bool"
  create_token :: "string \<Rightarrow> string option \<Rightarrow> string"
  webhook_delivers :: "string \<Rightarrow> bool"
  USER_SIGNUP :: "string \<Rightarrow> string"
  WEBUI_AUTH_TRUSTED_EMAIL_HEADER :: "string option"
  insert_role_default :: "string option"
  form_default_profile_image_url :: string
  form_default_extra_sso :: "string option"

text \<open>
  The mutable world: the user store, the process-wide configuration held in
  \<open>request.app.state\<close>, and the webhook notifications that reached their target.
\<close>

record state =
  users :: "user list"
  ENABLE_SIGNUP :: bool
  DEFAULT_USER_ROLE :: string
  JWT_EXPIRES_IN :: string
  WEBHOOK_URL :: "string option"
  webhook_outbox :: "(string \<times> string) list"

section \<open>The credential store\<close>

text \<open>
  Modelled from the spec: the models \<open>Users\<close> and \<open>Auths\<close>
  (\<open>apps/web/models/users.py\<close>, \<open>apps/web/models/auths.py\<close>) are missing. The spec
  describes a record store with lookup by email, lookup by id, insert, update of fields
  and count, with unique ids and unique emails enforced by the store.
\<close>

definition get_user_by_email :: "string \<Rightarrow> user list \<Rightarrow> user option" where
  "get_user_by_email e us = find (\<lambda>u. user_email u = e) us"

definition get_user_by_id :: "string \<Rightarrow> user list \<Rightarrow> user option" where
  "get_user_by_id i us = find (\<lambda>u. user_id u = i) us"

definition get_num_users :: "user list \<Rightarrow> nat" where
  "get_num_users us = length us"

text \<open>
  Modelled from the spec: \<open>Auths.insert_new_auth\<close> persists a new record and returns
  it, or returns nothing when the store refuses it (the id or the email is taken).
  The order of the arguments is the one \<open>signup\<close> passes them in.
\<close>

definition insert_new_auth ::
  "string \<Rightarrow> string \<Rightarrow> string \<Rightarrow> string \<Rightarrow> string \<Rightarrow> string option \<Rightarrow> string
     \<Rightarrow> user list \<Rightarrow> user option \<times> user list" where
  "insert_new_auth new_id e hashed n img extra r us =
     (if list_ex (\<lambda>u. user_id u = new_id \<or> user_email u = e) us then (None, us)
      else (let u = \<lparr>user_id = new_id, user_email = e, user_password_hash = hashed,
                      user_name = n, user_role = r, user_profile_image_url = img,
                      user_extra_sso = extra, user_api_key = None\<rparr>
            in (Some u, us @ [u])))"

text \<open>
  Modelled from the spec: update of fields by id. The record with that id is rewritten
  and returned; nothing is returned when there is none.
\<close>

definition update_user_by_id ::
  "string \<Rightarrow> (user \<Rightarrow> user) \<Rightarrow> user list \<Rightarrow> user option \<times> user list" where
  "update_user_by_id i f us =
     (case get_user_by_id i us of
        None \<Rightarrow> (None, us)
      | Some u \<Rightarrow> (Some (f u), map (\<lambda>v. if user_id v = i then f v else v) us))"

text \<open>
  Modelled from the spec: the role change, the password change and the API-key change
  (\<open>Users.update_user_role_by_id\<close>, \<open>Auths.update_user_password_by_id\<close>,
  \<open>Users.update_user_api_key_by_id\<close>, all missing) are updates of that one field; the
  last two report whether a record was updated. \<open>Users.get_user_api_key_by_id\<close> reads
  the key of the record with that id, if there is one.
\<close>

definition update_user_role_by_id ::
  "string \<Rightarrow> string \<Rightarrow> user list \<Rightarrow> user option \<times> user list" where
  "update_user_role_by_id i r us = update_user_by_id i (\<lambda>u. u\<lparr>user_role := r\<rparr>) us"

definition update_user_api_key_by_id ::
  "string \<Rightarrow> string option \<Rightarrow> user list \<Rightarrow> bool \<times> user list" where
  "update_user_api_key_by_id i k us =
     (case update_user_by_id i (\<lambda>u. u\<lparr>user_api_key := k\<rparr>) us of
        (None, us') \<Rightarrow> (False, us')
      | (Some _, us') \<Rightarrow> (True, us'))"

definition get_user_api_key_by_id :: "string \<Rightarrow> user list \<Rightarrow> string option" where
  "get_user_api_key_by_id i us =
     (case get_user_by_id i us of None \<Rightarrow> None | Some u \<Rightarrow> user_api_key u)"

definition update_user_password_by_id ::
  "string \<Rightarrow> string \<Rightarrow> user list \<Rightarrow> bool \<times> user list" where
  "update_user_password_by_id i hashed us =
     (case update_user_by_id i (\<lambda>u. u\<lparr>user_password_hash := hashed\<rparr>) us of
        (None, us') \<Rightarrow> (False, us')
      | (Some _, us') \<Rightarrow> (True, us'))"

text \<open>
  Modelled from the spec: \<open>authenticate(email, password)\<close> finds the user by email
  and fails when there is none or the hash does not verify; the trusted-header variant
  skips the password check.
\<close>

definition authenticate_user :: "env \<Rightarrow> string \<Rightarrow> string \<Rightarrow> user list \<Rightarrow> user option" where
  "authenticate_user env e pw us =
     (case get_user_by_email e us of
        None \<Rightarrow> None
      | Some u \<Rightarrow> if verify_password env pw (user_password_hash u) then Some u else None)"

definition authenticate_user_by_trusted_header :: "string \<Rightarrow> user list \<Rightarrow> user option" where
  "authenticate_user_by_trusted_header e us = get_user_by_email e us"

section \<open>The handlers\<close>

text \<open>
  Modelled from the spec: \<open>utils.webhook.post_webhook\<close> is a best-effort notifier.
  It reports whether the notification was delivered and raises nothing.
\<close>

definition post_webhook ::
  "env \<Rightarrow> string \<Rightarrow> string \<Rightarrow> (string \<times> string) list \<Rightarrow> bool \<times> (string \<times> string) list" where
  "post_webhook env url msg outbox =
     (if webhook_delivers env url then (True, outbox @ [(url, msg)]) else (False, outbox))"

definition session_payload :: "string \<Rightarrow> user \<Rightarrow> string option \<Rightarrow> signin_response" where
  "session_payload tok u extra =
     \<lparr>resp_token = tok, resp_token_type = ''Bearer'', resp_id = user_id u,
      resp_email = user_email u, resp_name = user_name u, resp_role = user_role u,
      resp_profile_image_url = user_profile_image_url u, resp_extra_sso = extra\<rparr>"

text \<open>
  \<open>signup\<close>. The argument \<open>new_id\<close> is the fresh identifier the store draws for the
  new record. Every exception raised inside the \<open>try\<close> block, the handler's own
  \<open>CREATE_USER_ERROR\<close> included, leaves as \<open>HTTPException(500, DEFAULT(err))\<close>.
\<close>

definition signup ::
  "env \<Rightarrow> signup_form \<Rightarrow> string \<Rightarrow> state \<Rightarrow> (exn + signin_response) \<times> state" where
  "signup env form_data new_id st =
     (if \<not> ENABLE_SIGNUP st then (Inl (HTTPException 403 ACCESS_PROHIBITED), st)
      else if \<not> validate_email_format env (lower (form_email form_data))
        then (Inl (HTTPException 400 INVALID_EMAIL_FORMAT), st)
      else if get_user_by_email (lower (form_email form_data)) (users st) \<noteq> None
        then (Inl (HTTPException 400 EMAIL_TAKEN), st)
      else
        (let r = (if get_num_users (users st) = 0 then ''admin'' else DEFAULT_USER_ROLE st);
             hashed = get_password_hash env (form_password form_data)
         in case insert_new_auth new_id (lower (form_email form_data)) hashed
                   (form_name form_data) (form_profile_image_url form_data)
                   (form_extra_sso form_data) r (users st) of
              (Some u, us') \<Rightarrow>
                (let tok = create_token env (user_id u) (Some (JWT_EXPIRES_IN st));
                     outbox' = (case WEBHOOK_URL st of
                                  None \<Rightarrow> webhook_outbox st
                                | Some url \<Rightarrow>
                                    if url \<noteq> []
                                    then snd (post_webhook env url
                                                (USER_SIGNUP env (user_name u)) (webhook_outbox st))
                                    else webhook_outbox st)
                 in (Inr (session_payload tok u (Some '''')),
                     st\<lparr>users := us', webhook_outbox := outbox'\<rparr>))
            | (None, us') \<Rightarrow>
                (Inl (HTTPException 500
                        (DEFAULT (Some (HTTPException 500 CREATE_USER_ERROR)))),
                 st\<lparr>users := us'\<rparr>)))"


text \<open>
  \<open>add_user\<close> passes five arguments to \<open>Auths.insert_new_auth\<close>: the form's role
  arrives in the position where \<open>signup\<close> passes \<open>extra_sso\<close>, and the role of the
  record is the default of the sixth parameter. Without such a default the call raises
  \<open>TypeError\<close> inside the \<open>try\<close> block.
\<close>

definition add_user ::
  "env \<Rightarrow> add_user_form \<Rightarrow> string \<Rightarrow> state \<Rightarrow> (exn + signin_response) \<times> state" where
  "add_user env form_data new_id st =
     (if \<not> validate_email_format env (lower (add_email form_data))
        then (Inl (HTTPException 400 INVALID_EMAIL_FORMAT), st)
      else if get_user_by_email (lower (add_email form_data)) (users st) \<noteq> None
        then (Inl (HTTPException 400 EMAIL_TAKEN), st)
      else
        (let hashed = get_password_hash env (add_password form_data)
         in case insert_role_default env of
              None \<Rightarrow> (Inl (HTTPException 500 (DEFAULT (Some TypeError))), st)
            | Some r \<Rightarrow>
                (case insert_new_auth new_id (lower (add_email form_data)) hashed
                        (add_name form_data) (add_profile_image_url form_data)
                        (Some (add_role form_data)) r (users st) of
                   (Some u, us') \<Rightarrow>
                     (Inr (session_payload (create_token env (user_id u) None) u (Some '''')),
                      st\<lparr>users := us'\<rparr>)
                 | (None, us') \<Rightarrow>
                     (Inl (HTTPException 500
                             (DEFAULT (Some (HTTPException 500 CREATE_USER_ERROR)))),
                      st\<lparr>users := us'\<rparr>))))"

text \<open>
  \<open>signin\<close>. \<open>headers\<close> is the lookup \<open>request.headers\<close> offers; \<open>rand_password\<close>
  and \<open>new_id\<close> are the random password and the fresh identifier used when the
  trusted-header branch provisions an account.
\<close>

definition signin_finish ::
  "env \<Rightarrow> user option \<Rightarrow> state \<Rightarrow> (exn + signin_response) \<times> state" where
  "signin_finish env user st =
     (case user of
        Some u \<Rightarrow>
          (Inr (session_payload (create_token env (user_id u) (Some (JWT_EXPIRES_IN st)))
                  u (Some '''')), st)
      | None \<Rightarrow> (Inl (HTTPException 400 INVALID_CRED), st))"

definition signin ::
  "env \<Rightarrow> (string \<Rightarrow> string option) \<Rightarrow> signin_form \<Rightarrow> string \<Rightarrow> string \<Rightarrow> state
     \<Rightarrow> (exn + signin_response) \<times> state" where
  "signin env headers form_data rand_password new_id st =
     (case WEBUI_AUTH_TRUSTED_EMAIL_HEADER env of
        None \<Rightarrow>
          signin_finish env
            (authenticate_user env (lower (signin_email form_data))
               (signin_password form_data) (users st)) st
      | Some h \<Rightarrow>
          if h = [] then
            signin_finish env
              (authenticate_user env (lower (signin_email form_data))
                 (signin_password form_data) (users st)) st
          else
            (case headers h of
               None \<Rightarrow> (Inl (HTTPException 400 INVALID_TRUSTED_HEADER), st)
             | Some v \<Rightarrow>
                 (let trusted_email = lower v
                  in if get_user_by_email (lower trusted_email) (users st) = None then
                       (case signup env
                               \<lparr>form_email = trusted_email, form_password = rand_password,
                                form_name = trusted_email,
                                form_profile_image_url = form_default_profile_image_url env,
                                form_extra_sso = form_default_extra_sso env\<rparr> new_id st of
                          (Inl e, st1) \<Rightarrow> (Inl e, st1)
                        | (Inr _, st1) \<Rightarrow>
                            signin_finish env
                              (authenticate_user_by_trusted_header trusted_email (users st1)) st1)
                     else
                       signin_finish env
                         (authenticate_user_by_trusted_header trusted_email (users st)) st)))"

text \<open>
  Trusted-header mode is active when \<open>WEBUI_AUTH_TRUSTED_EMAIL_HEADER\<close> is true as a
  Python value: neither \<open>None\<close> nor the empty string.
\<close>

definition trusted_header_mode :: "env \<Rightarrow> bool" where
  "trusted_header_mode env =
     (case WEBUI_AUTH_TRUSTED_EMAIL_HEADER env of None \<Rightarrow> False | Some h \<Rightarrow> h \<noteq> [])"

text \<open>\<open>update_password\<close>, with the session user the dependency resolved.\<close>

definition update_password ::
  "env \<Rightarrow> update_password_form \<Rightarrow> user option \<Rightarrow> state \<Rightarrow> (exn + bool) \<times> state" where
  "update_password env form_data session_user st =
     (if trusted_header_mode env
        then (Inl (HTTPException 400 ACTION_PROHIBITED), st)
      else
        (case session_user of
           None \<Rightarrow> (Inl (HTTPException 400 INVALID_CRED), st)
         | Some su \<Rightarrow>
             (case authenticate_user env (user_email su) (upd_password form_data) (users st) of
                Some u \<Rightarrow>
                  (let hashed = get_password_hash env (upd_new_password form_data)
                   in case update_user_password_by_id (user_id u) hashed (users st) of
                        (ok, us') \<Rightarrow> (Inr ok, st\<lparr>users := us'\<rparr>))
              | None \<Rightarrow> (Inl (HTTPException 400 INVALID_PASSWORD), st))))"

section \<open>Token expiry configuration\<close>

text \<open>
  Regular expressions with Brzozowski derivatives, enough for the pattern of
  \<open>update_token_expires_duration\<close>. \<open>Digit\<close> is \<open>\d\<close>: below code point 256 the
  decimal digits are \<open>0..9\<close>.
\<close>

datatype rexp =
    Zero
  | One
  | Sym char
  | Digit
  | Alt rexp rexp
  | Seq rexp rexp
  | Star rexp

definition is_digit :: "char \<Rightarrow> bool" where
  "is_digit c = (48 \<le> (of_char c :: nat) \<and> (of_char c :: nat) \<le> 57)"

fun nullable :: "rexp \<Rightarrow> bool" where
  "nullable Zero = False"
| "nullable One = True"
| "nullable (Sym c) = False"
| "nullable Digit = False"
| "nullable (Alt r s) = (nullable r \<or> nullable s)"
| "nullable (Seq r s) = (nullable r \<and> nullable s)"
| "nullable (Star r) = True"

fun deriv :: "char \<Rightarrow> rexp \<Rightarrow> rexp" where
  "deriv c Zero = Zero"
| "deriv c One = Zero"
| "deriv c (Sym d) = (if c = d then One else Zero)"
| "deriv c Digit = (if is_digit c then One else Zero)"
| "deriv c (Alt r s) = Alt (deriv c r) (deriv c s)"
| "deriv c (Seq r s) =
     (if nullable r then Alt (Seq (deriv c r) s) (deriv c s) else Seq (deriv c r) s)"
| "deriv c (Star r) = Seq (deriv c r) (Star r)"

fun matches :: "rexp \<Rightarrow> string \<Rightarrow> bool" where
  "matches r [] = nullable r"
| "matches r (c # cs) = matches (deriv c r) cs"

fun lit :: "string \<Rightarrow> rexp" where
  "lit [] = One"
| "lit (c # cs) = Seq (Sym c) (lit cs)"

definition Opt :: "rexp \<Rightarrow> rexp" where
  "Opt r = Alt One r"

definition Plus :: "rexp \<Rightarrow> rexp" where
  "Plus r = Seq r (Star r)"

text \<open>The body of \<open>^(-1|0|(-?\d+(\.\d+)?)(ms|s|m|h|d|w))$\<close> between the anchors.\<close>

definition pattern :: rexp where
  "pattern =
     Alt (lit ''-1'')
       (Alt (lit ''0'')
          (Seq (Seq (Opt (Sym (CHR ''-'')))
                  (Seq (Plus Digit) (Opt (Seq (Sym (CHR ''.'')) (Plus Digit)))))
             (Alt (lit ''ms'') (Alt (lit ''s'') (Alt (lit ''m'')
                (Alt (lit ''h'') (Alt (lit ''d'') (lit ''w''))))))))"

text \<open>
  \<open>re.match\<close> of a pattern anchored by \<open>^\<close> and \<open>$\<close>: outside multi-line mode
  \<open>$\<close> matches at the end of the string and also just before a newline that ends it.
\<close>

definition re_match :: "rexp \<Rightarrow> string \<Rightarrow> bool" where
  "re_match r s =
     (matches r s \<or> (s \<noteq> [] \<and> last s = CHR 0x0A \<and> matches r (butlast s)))"

definition update_token_expires_duration :: "string \<Rightarrow> state \<Rightarrow> string \<times> state" where
  "update_token_expires_duration duration st =
     (if re_match pattern duration
      then (let st' = st\<lparr>JWT_EXPIRES_IN := duration\<rparr> in (JWT_EXPIRES_IN st', st'))
      else (JWT_EXPIRES_IN st, st))"

subsection \<open>The language of the pattern\<close>

text \<open>
  The textbook meaning of the regular expressions above, and the pattern's strings
  described without regular expressions: \<open>-1\<close>, \<open>0\<close>, or an optional minus sign,
  one or more digits, an optional fraction (a dot and one or more digits) and a unit.
\<close>

definition conc :: "string set \<Rightarrow> string set \<Rightarrow> string set" where
  "conc A B = {u @ v | u v. u \<in> A \<and> v \<in> B}"

inductive_set star :: "string set \<Rightarrow> string set" for A :: "string set" where
  star_empty: "[] \<in> star A"
| star_step: "u \<in> A \<Longrightarrow> v \<in> star A \<Longrightarrow> u @ v \<in> star A"

fun lang :: "rexp \<Rightarrow> string set" where
  "lang Zero = {}"
| "lang One = {[]}"
| "lang (Sym c) = {[c]}"
| "lang Digit = {[c] | c. is_digit c}"
| "lang (Alt r s) = lang r \<union> lang s"
| "lang (Seq r s) = conc (lang r) (lang s)"
| "lang (Star r) = star (lang r)"

definition digits :: "string \<Rightarrow> bool" where
  "digits s = (s \<noteq> [] \<and> list_all is_digit s)"

definition is_duration :: "string \<Rightarrow> bool" where
  "is_duration s =
     (s = ''-1'' \<or> s = ''0'' \<or>
      (\<exists>sign n frac u. s = sign @ n @ frac @ u \<and> (sign = [] \<or> sign = ''-'') \<and> digits n \<and>
         (frac = [] \<or> (\<exists>f. frac = CHR ''.'' # f \<and> digits f)) \<and>
         u \<in> set [''ms'', ''s'', ''m'', ''h'', ''d'', ''w'']))"

section \<open>API keys\<close>

text \<open>
  \<open>create_api_key_route\<close> is the handler \<open>create_api_key_\<close>.
  \<open>api_key\<close> is the value \<open>utils.utils.create_api_key()\<close> returned for this call;
  \<open>user\<close> is the session user the dependency resolved.
\<close>

definition create_api_key_route :: "string \<Rightarrow> user \<Rightarrow> state \<Rightarrow> (exn + string) \<times> state" where
  "create_api_key_route api_key user st =
     (case update_user_api_key_by_id (user_id user) (Some api_key) (users st) of
        (success, us') \<Rightarrow>
          if success then (Inr api_key, st\<lparr>users := us'\<rparr>)
          else (Inl (HTTPException 500 CREATE_API_KEY_ERROR), st\<lparr>users := us'\<rparr>))"

definition delete_api_key :: "user \<Rightarrow> state \<Rightarrow> bool \<times> state" where
  "delete_api_key user st =
     (case update_user_api_key_by_id (user_id user) None (users st) of
        (success, us') \<Rightarrow> (success, st\<lparr>users := us'\<rparr>))"

definition get_api_key :: "user \<Rightarrow> state \<Rightarrow> exn + string" where
  "get_api_key user st =
     (case get_user_api_key_by_id (user_id user) (users st) of
        None \<Rightarrow> Inl (HTTPException 404 API_KEY_NOT_FOUND)
      | Some api_key \<Rightarrow>
          if api_key \<noteq> [] then Inr api_key else Inl (HTTPException 404 API_KEY_NOT_FOUND))"

section \<open>The SSO callback\<close>

text \<open>
  \<open>signin_callback\<close>. \<open>verified\<close> is what \<open>sso.verify_and_process\<close> returned.
  Whatever is raised inside the \<open>try\<close> block (an attribute read on \<open>None\<close>, the
  exception of the nested \<open>signup\<close>) leaves as
  \<open>HTTPException(500, "Error in signin_callback")\<close>; what was persisted before stays.
\<close>

definition callback_error :: "exn + signin_response" where
  "callback_error = Inl (HTTPException 500 SIGNIN_CALLBACK_ERROR)"

definition callback_finish :: "env \<Rightarrow> user \<Rightarrow> state \<Rightarrow> (exn + signin_response) \<times> state" where
  "callback_finish env u st =
     (Inr (session_payload (create_token env (user_id u) (Some (JWT_EXPIRES_IN st)))
             u (user_extra_sso u)), st)"

definition signin_callback ::
  "env \<Rightarrow> sso_user option \<Rightarrow> string \<Rightarrow> string \<Rightarrow> state
     \<Rightarrow> (exn + signin_response) \<times> state" where
  "signin_callback env verified rand_password new_id st =
     (case verified of
        None \<Rightarrow> (callback_error, st)
      | Some su \<Rightarrow>
          (case sso_email su of
             None \<Rightarrow> (callback_error, st)
           | Some sso_user_email \<Rightarrow>
               (case get_user_by_email (lower sso_user_email) (users st) of
                  None \<Rightarrow>
                    (case signup env
                            \<lparr>form_email = sso_user_email, form_password = rand_password,
                             form_name = sso_display_name su,
                             form_profile_image_url = ''/user.png'',
                             form_extra_sso = Some (sso_user_json_str su)\<rparr> new_id st of
                       (Inl e, st1) \<Rightarrow> (callback_error, st1)
                     | (Inr _, st1) \<Rightarrow>
                         (case authenticate_user_by_trusted_header (lower sso_user_email)
                                 (users st1) of
                            None \<Rightarrow> (callback_error, st1)
                          | Some u \<Rightarrow>
                              (let r = (if get_num_users (users st1) = 0
                                        then ''admin'' else ''user'')
                               in case update_user_role_by_id (user_id u) r (users st1) of
                                    (None, us2) \<Rightarrow> (callback_error, st1\<lparr>users := us2\<rparr>)
                                  | (Some u2, us2) \<Rightarrow>
                                      callback_finish env u2 (st1\<lparr>users := us2\<rparr>))))
                | Some u \<Rightarrow>
                    (case update_user_by_id (user_id u)
                            (\<lambda>v. v\<lparr>user_extra_sso := Some (sso_user_json_str su)\<rparr>)
                            (users st) of
                       (None, us1) \<Rightarrow> (callback_error, st\<lparr>users := us1\<rparr>)
                     | (Some u1, us1) \<Rightarrow> callback_finish env u1 (st\<lparr>users := us1\<rparr>)))))"


section \<open>Store invariant and auxiliary notions\<close>

text \<open>
  Every handler that inserts a record stores the lower-cased email after validating it,
  so the stores the handlers build hold only normalised, well-formed emails.
\<close>

definition store_ok :: "env \<Rightarrow> user list \<Rightarrow> bool" where
  "store_ok env us =
     list_all (\<lambda>u. lower (user_email u) = user_email u \<and>
                    validate_email_format env (user_email u)) us"

text \<open>An email is registered when a stored email equals it up to letter case.\<close>

definition registered :: "string \<Rightarrow> user list \<Rightarrow> bool" where
  "registered e us = list_ex (\<lambda>u. lower (user_email u) = lower e) us"

text \<open>The record \<open>signup\<close> hands to the store, and the outbox it leaves.\<close>

definition signup_user :: "env \<Rightarrow> signup_form \<Rightarrow> string \<Rightarrow> state \<Rightarrow> user" where
  "signup_user env f nid st =
     \<lparr>user_id = nid, user_email = lower (form_email f),
      user_password_hash = get_password_hash env (form_password f),
      user_name = form_name f,
      user_role = (if get_num_users (users st) = 0 then ''admin'' else DEFAULT_USER_ROLE st),
      user_profile_image_url = form_profile_image_url f,
      user_extra_sso = form_extra_sso f, user_api_key = None\<rparr>"

definition signup_outbox :: "env \<Rightarrow> signup_form \<Rightarrow> state \<Rightarrow> (string \<times> string) list" where
  "signup_outbox env f st =
     (case WEBHOOK_URL st of
        None \<Rightarrow> webhook_outbox st
      | Some url \<Rightarrow>
          if url \<noteq> []
          then snd (post_webhook env url (USER_SIGNUP env (form_name f)) (webhook_outbox st))
          else webhook_outbox st)"

section \<open>Concrete inputs\<close>

definition example_env :: env where
  "example_env =
     \<lparr>validate_email_format = (\<lambda>e. CHR ''@'' \<in> set e),
      get_password_hash = (\<lambda>p. ''h:'' @ p),
      verify_password = (\<lambda>p h. h = ''h:'' @ p),
      create_token = (\<lambda>i e. ''tok:'' @ i),
      webhook_delivers = (\<lambda>u. False),
      USER_SIGNUP = (\<lambda>n. ''New user signed up: '' @ n),
      WEBUI_AUTH_TRUSTED_EMAIL_HEADER = None,
      insert_role_default = Some ''pending'',
      form_default_profile_image_url = ''/user.png'',
      form_default_extra_sso = None\<rparr>"

definition empty_state :: state where
  "empty_state =
     \<lparr>users = [], ENABLE_SIGNUP = True, DEFAULT_USER_ROLE = ''pending'',
      JWT_EXPIRES_IN = ''-1'', WEBHOOK_URL = None, webhook_outbox = []\<rparr>"

definition alice :: user where
  "alice =
     \<lparr>user_id = ''u1'', user_email = ''alice@example.com'',
      user_password_hash = ''h:secret'', user_name = ''Alice'', user_role = ''admin'',
      user_profile_image_url = ''/user.png'', user_extra_sso = Some ''{old}'',
      user_api_key = None\<rparr>"

definition carol :: user where
  "carol =
     \<lparr>user_id = ''u2'', user_email = ''carol@example.com'',
      user_password_hash = ''h:carol'', user_name = ''Carol'', user_role = ''pending'',
      user_profile_image_url = ''/carol.png'', user_extra_sso = None,
      user_api_key = Some ''sk-old''\<rparr>"

definition bob_form :: signup_form where
  "bob_form =
     \<lparr>form_email = ''Bob@Example.com'', form_password = ''pw'', form_name = ''Bob'',
      form_profile_image_url = ''/user.png'', form_extra_sso = None\<rparr>"

definition ann_sso :: sso_user where
  "ann_sso =
     \<lparr>sso_email = Some ''Ann@Corp.example'', sso_display_name = ''Ann'',
      sso_user_json_str = ''{ann}''\<rparr>"

section \<open>Auxiliary lemmas\<close>

lemma lower_char_idem: "lower_char (lower_char c) = lower_char c"
  by (auto simp: lower_char_def is_upper_def Let_def)

lemma lower_idem: "lower (lower s) = lower s"
  by (simp add: lower_def lower_char_idem)


lemma insert_new_auth_fresh:
  assumes "get_user_by_email e us = None" and "\<not> list_ex (\<lambda>u. user_id u = nid) us"
  shows "insert_new_auth nid e h n img x r us =
           (Some \<lparr>user_id = nid, user_email = e, user_password_hash = h, user_name = n,
                  user_role = r, user_profile_image_url = img, user_extra_sso = x,
                  user_api_key = None\<rparr>,
            us @ [\<lparr>user_id = nid, user_email = e, user_password_hash = h, user_name = n,
                   user_role = r, user_profile_image_url = img, user_extra_sso = x,
                   user_api_key = None\<rparr>])"
  using assms
  by (auto simp: insert_new_auth_def Let_def list_ex_iff get_user_by_email_def find_None_iff)

lemma insert_new_auth_SomeD:
  assumes "insert_new_auth nid e h n img x r us = (Some u, us')"
  shows "u = \<lparr>user_id = nid, user_email = e, user_password_hash = h, user_name = n,
              user_role = r, user_profile_image_url = img, user_extra_sso = x,
              user_api_key = None\<rparr> \<and> us' = us @ [u] \<and>
         \<not> list_ex (\<lambda>u. user_id u = nid) us"
  using assms
  by (auto simp: insert_new_auth_def Let_def list_ex_iff split: if_splits)

lemma signup_success:
  assumes "ENABLE_SIGNUP st"
    and "validate_email_format env (lower (form_email f))"
    and "get_user_by_email (lower (form_email f)) (users st) = None"
    and "\<not> list_ex (\<lambda>u. user_id u = nid) (users st)"
  shows "signup env f nid st =
           (Inr (session_payload (create_token env nid (Some (JWT_EXPIRES_IN st)))
                   (signup_user env f nid st) (Some '''')),
            st\<lparr>users := users st @ [signup_user env f nid st],
               webhook_outbox := signup_outbox env f st\<rparr>)"
  using assms
  by (simp add: signup_def Let_def insert_new_auth_fresh signup_user_def signup_outbox_def
        split: option.splits)

lemma signup_InrD:
  assumes "signup env f nid st = (Inr p, st')"
  shows "ENABLE_SIGNUP st \<and> validate_email_format env (lower (form_email f)) \<and>
         get_user_by_email (lower (form_email f)) (users st) = None \<and>
         \<not> list_ex (\<lambda>u. user_id u = nid) (users st) \<and>
         p = session_payload (create_token env nid (Some (JWT_EXPIRES_IN st)))
               (signup_user env f nid st) (Some '''') \<and>
         st' = st\<lparr>users := users st @ [signup_user env f nid st],
                  webhook_outbox := signup_outbox env f st\<rparr>"
proof -
  from assms have en: "ENABLE_SIGNUP st"
    and va: "validate_email_format env (lower (form_email f))"
    and un: "get_user_by_email (lower (form_email f)) (users st) = None"
    by (auto simp: signup_def split: if_splits)
  from assms en va un obtain u us' where
    ins: "insert_new_auth nid (lower (form_email f)) (get_password_hash env (form_password f))
            (form_name f) (form_profile_image_url f) (form_extra_sso f)
            (if get_num_users (users st) = 0 then ''admin'' else DEFAULT_USER_ROLE st)
            (users st) = (Some u, us')"
    by (auto simp: signup_def Let_def split: prod.splits option.splits)
  from insert_new_auth_SomeD [OF ins]
  have fresh: "\<not> list_ex (\<lambda>u. user_id u = nid) (users st)" by simp
  from signup_success [OF en va un fresh] assms
  show ?thesis using en va un fresh by simp
qed


section \<open>The claims\<close>

subsection \<open>C1: the role of a first user created by the SSO callback\<close>

lemma lower_ann: "lower ''Ann@Corp.example'' = ''ann@corp.example''"
  by code_simp

text \<open>
  C1. The claim reads: for an SSO callback whose federated email has no local user, on
  an empty store, the resolved user's persisted role is \<open>admin\<close>. The handler computes
  the role after \<open>signup\<close> has inserted the record, so the count it compares with zero
  is already one: whenever the callback succeeds on an empty store, the role it persists
  and returns is \<open>user\<close>.
\<close>

theorem signin_callback_first_user_role:
  assumes "users st = []" and "ENABLE_SIGNUP st" and "sso_email su = Some em"
    and "validate_email_format env (lower em)"
  shows "\<exists>p st'. signin_callback env (Some su) pw nid st = (Inr p, st') \<and>
           resp_role p = ''user'' \<and> map user_role (users st') = [''user'']"
proof -
  let ?f = "\<lparr>form_email = em, form_password = pw, form_name = sso_display_name su,
             form_profile_image_url = ''/user.png'',
             form_extra_sso = Some (sso_user_json_str su)\<rparr>"
  have none: "get_user_by_email (lower em) (users st) = None"
    using assms(1) by (simp add: get_user_by_email_def)
  have su: "signup env ?f nid st =
              (Inr (session_payload (create_token env nid (Some (JWT_EXPIRES_IN st)))
                      (signup_user env ?f nid st) (Some '''')),
               st\<lparr>users := users st @ [signup_user env ?f nid st],
                  webhook_outbox := signup_outbox env ?f st\<rparr>)"
    by (rule signup_success) (use assms none in simp_all)
  show ?thesis
    using assms(1,3) none
    by (simp add: signin_callback_def su authenticate_user_by_trusted_header_def
        get_user_by_email_def get_num_users_def update_user_role_by_id_def
        update_user_by_id_def get_user_by_id_def signup_user_def callback_finish_def
        session_payload_def Let_def)
qed

theorem signin_callback_first_user_role_witness:
  "\<exists>p st'. signin_callback example_env (Some ann_sso) ''pw'' ''u1'' empty_state = (Inr p, st') \<and>
     resp_role p = ''user'' \<and> map user_role (users st') = [''user'']"
  using signin_callback_first_user_role
    [of empty_state ann_sso "''Ann@Corp.example''" example_env "''pw''" "''u1''"]
  by (simp add: empty_state_def ann_sso_def example_env_def lower_ann)

text \<open>The same run, written out: the only record of the store ends with role \<open>user\<close>.\<close>

lemma signin_callback_first_user_run:
  "signin_callback example_env (Some ann_sso) ''pw'' ''u1'' empty_state =
     (Inr \<lparr>resp_token = ''tok:u1'', resp_token_type = ''Bearer'', resp_id = ''u1'',
           resp_email = ''ann@corp.example'', resp_name = ''Ann'', resp_role = ''user'',
           resp_profile_image_url = ''/user.png'', resp_extra_sso = Some ''{ann}''\<rparr>,
      empty_state\<lparr>users :=
        [\<lparr>user_id = ''u1'', user_email = ''ann@corp.example'', user_password_hash = ''h:pw'',
          user_name = ''Ann'', user_role = ''user'', user_profile_image_url = ''/user.png'',
          user_extra_sso = Some ''{ann}'', user_api_key = None\<rparr>]\<rparr>)"
  by (simp add: signin_callback_def signup_def ann_sso_def empty_state_def example_env_def
      lower_ann get_user_by_email_def get_num_users_def insert_new_auth_def Let_def
      authenticate_user_by_trusted_header_def update_user_role_by_id_def
      update_user_by_id_def get_user_by_id_def callback_finish_def session_payload_def)


subsection \<open>C2: the role \<open>signup\<close> assigns\<close>

lemma lower_bob: "lower ''Bob@Example.com'' = ''bob@example.com''"
  by code_simp

text \<open>
  C2. The claim reads: for every signup call with valid, enabled input and an email not
  yet registered, the created user's role is \<open>admin\<close> if and only if the store held no
  user before the call, and the configured default role otherwise. The configured
  default role may itself be \<open>admin\<close> (\<open>update_default_user_role\<close> accepts it): then a
  user created in a store that already holds a user is an admin too.
\<close>

theorem signup_role_iff_counterexample:
  "fst (signup example_env bob_form ''u2''
          (empty_state\<lparr>users := [alice], DEFAULT_USER_ROLE := ''admin''\<rparr>)) =
     Inr \<lparr>resp_token = ''tok:u2'', resp_token_type = ''Bearer'', resp_id = ''u2'',
          resp_email = ''bob@example.com'', resp_name = ''Bob'', resp_role = ''admin'',
          resp_profile_image_url = ''/user.png'', resp_extra_sso = Some ''''\<rparr> \<and>
   get_num_users (users (empty_state\<lparr>users := [alice], DEFAULT_USER_ROLE := ''admin''\<rparr>)) = 1"
  by (simp add: signup_def example_env_def bob_form_def empty_state_def alice_def lower_bob
      get_user_by_email_def get_num_users_def insert_new_auth_def Let_def session_payload_def)

text \<open>
  C2, amended. For every signup call with enabled sign-up, a well-formed email that is
  not registered and a record id the store has not used, a user is created whose role
  is \<open>admin\<close> when the store held no user before the call and the configured default
  role otherwise; when the configured default role is not \<open>admin\<close>, the role is
  \<open>admin\<close> if and only if the store was empty.
\<close>

theorem signup_role:
  assumes "ENABLE_SIGNUP st"
    and "validate_email_format env (lower (form_email f))"
    and "get_user_by_email (lower (form_email f)) (users st) = None"
    and "\<not> list_ex (\<lambda>u. user_id u = nid) (users st)"
  shows "\<exists>p st' u. signup env f nid st = (Inr p, st') \<and> users st' = users st @ [u] \<and>
           resp_role p = user_role u \<and>
           user_role u = (if get_num_users (users st) = 0 then ''admin''
                          else DEFAULT_USER_ROLE st) \<and>
           (DEFAULT_USER_ROLE st \<noteq> ''admin'' \<longrightarrow>
              (user_role u = ''admin'' \<longleftrightarrow> get_num_users (users st) = 0))"
  using signup_success [OF assms]
  by (simp add: signup_user_def session_payload_def)

theorem signup_role_witness:
  "\<exists>p st' u. signup example_env bob_form ''u2'' (empty_state\<lparr>users := [alice]\<rparr>) = (Inr p, st') \<and>
     users st' = [alice, u] \<and> resp_role p = user_role u \<and> user_role u = ''pending'' \<and>
     user_role u \<noteq> ''admin''"
  using signup_role [of "empty_state\<lparr>users := [alice]\<rparr>" example_env bob_form "''u2''"]
  by (simp add: example_env_def bob_form_def empty_state_def alice_def lower_bob
      get_user_by_email_def get_num_users_def)

subsection \<open>C3: signing up with a registered email\<close>

lemma lower_ALICE: "lower ''ALICE@example.com'' = ''alice@example.com''"
  by code_simp

lemma lower_alice: "lower ''alice@example.com'' = ''alice@example.com''"
  by code_simp

lemma store_ok_empty: "store_ok env []"
  by (simp add: store_ok_def)

lemma store_ok_signup:
  assumes "store_ok env (users st)"
  shows "store_ok env (users (snd (signup env f nid st)))"
  using assms
  by (auto simp: signup_def Let_def insert_new_auth_def store_ok_def lower_idem
      split: if_splits option.splits prod.splits)

lemma store_ok_add_user:
  assumes "store_ok env (users st)"
  shows "store_ok env (users (snd (add_user env f nid st)))"
  using assms
  by (auto simp: add_user_def Let_def insert_new_auth_def store_ok_def lower_idem
      split: if_splits option.splits prod.splits)

lemma registered_lookup:
  assumes "store_ok env us" and "registered e us"
  shows "get_user_by_email (lower e) us \<noteq> None \<and> validate_email_format env (lower e)"
proof -
  from assms(2) obtain u where u: "u \<in> set us" "lower (user_email u) = lower e"
    by (auto simp: registered_def list_ex_iff)
  from assms(1) u(1) have "lower (user_email u) = user_email u"
    and "validate_email_format env (user_email u)"
    by (auto simp: store_ok_def list_all_iff)
  with u show ?thesis
    by (auto simp: get_user_by_email_def find_None_iff)
qed

text \<open>
  C3. The claim reads: for every registered email (compared without regard to case), a
  signup call with that email fails with \<open>EMAIL_TAKEN\<close> and leaves the store
  unchanged. The handler tests \<open>ENABLE_SIGNUP\<close> first: with sign-up disabled the call
  fails with \<open>ACCESS_PROHIBITED\<close> (status 403), whatever the email.
\<close>

theorem signup_registered_counterexample:
  "registered ''ALICE@example.com''
     (users (empty_state\<lparr>users := [alice], ENABLE_SIGNUP := False\<rparr>)) \<and>
   signup example_env (bob_form\<lparr>form_email := ''ALICE@example.com''\<rparr>) ''u2''
     (empty_state\<lparr>users := [alice], ENABLE_SIGNUP := False\<rparr>) =
     (Inl (HTTPException 403 ACCESS_PROHIBITED),
      empty_state\<lparr>users := [alice], ENABLE_SIGNUP := False\<rparr>)"
  by (simp add: signup_def registered_def empty_state_def alice_def lower_ALICE lower_alice)

text \<open>
  C3, amended. On a store of normalised, well-formed emails, a signup call with a
  registered email (compared without regard to case) leaves the whole state unchanged
  and fails: with \<open>EMAIL_TAKEN\<close> when sign-up is enabled, with \<open>ACCESS_PROHIBITED\<close>
  when it is disabled.
\<close>

theorem signup_registered_email:
  assumes "store_ok env (users st)" and "registered (form_email f) (users st)"
  shows "signup env f nid st =
           (Inl (if ENABLE_SIGNUP st then HTTPException 400 EMAIL_TAKEN
                 else HTTPException 403 ACCESS_PROHIBITED), st)"
  using registered_lookup [OF assms]
  by (simp add: signup_def)

theorem signup_registered_email_witness:
  "signup example_env (bob_form\<lparr>form_email := ''ALICE@example.com''\<rparr>) ''u2''
     (empty_state\<lparr>users := [alice]\<rparr>) =
     (Inl (HTTPException 400 EMAIL_TAKEN), empty_state\<lparr>users := [alice]\<rparr>)"
  using signup_registered_email [of example_env "empty_state\<lparr>users := [alice]\<rparr>"
      "bob_form\<lparr>form_email := ''ALICE@example.com''\<rparr>" "''u2''"]
  by (simp add: store_ok_def registered_def example_env_def empty_state_def alice_def
      bob_form_def lower_ALICE lower_alice)


subsection \<open>C4: signing in with another casing of the email\<close>





subsection \<open>C5: password update in trusted-header mode\<close>

text \<open>
  C5. Whenever trusted-header mode is active, every \<open>update_password\<close> call fails with
  \<open>ACTION_PROHIBITED\<close>, whatever the session user and the passwords supplied, and the
  state (every stored password hash with it) is left as it was.
\<close>

theorem update_password_trusted_header:
  assumes "trusted_header_mode env"
  shows "update_password env form_data session_user st =
           (Inl (HTTPException 400 ACTION_PROHIBITED), st)"
  using assms by (simp add: update_password_def)

theorem update_password_trusted_header_witness:
  "update_password (example_env\<lparr>WEBUI_AUTH_TRUSTED_EMAIL_HEADER := Some ''X-Email''\<rparr>)
     \<lparr>upd_password = ''secret'', upd_new_password = ''new''\<rparr> (Some alice)
     (empty_state\<lparr>users := [alice]\<rparr>) =
     (Inl (HTTPException 400 ACTION_PROHIBITED), empty_state\<lparr>users := [alice]\<rparr>)"
  using update_password_trusted_header
    [of "example_env\<lparr>WEBUI_AUTH_TRUSTED_EMAIL_HEADER := Some ''X-Email''\<rparr>"]
  by (simp add: trusted_header_mode_def example_env_def)


subsection \<open>C6: updating the token expiry\<close>

lemma match_examples:
  "re_match pattern ''2w''" "re_match pattern ''-1''" "re_match pattern ''0''"
  "\<not> re_match pattern ''abc''"
  by (simp_all add: re_match_def pattern_def Opt_def Plus_def is_digit_def)

text \<open>The derivative matcher decides the language; the pattern's language in plain terms.\<close>

lemma nullable_lang: "nullable r \<longleftrightarrow> [] \<in> lang r"
  by (induction r) (auto simp: conc_def intro: star_empty)

lemma conc_Cons:
  "c # w \<in> conc A B \<longleftrightarrow>
     ([] \<in> A \<and> c # w \<in> B) \<or> (\<exists>u v. w = u @ v \<and> c # u \<in> A \<and> v \<in> B)"
  by (auto simp: conc_def Cons_eq_append_conv)

lemma star_Cons_split:
  assumes "x \<in> star A" and "x = c # w"
  shows "\<exists>u v. w = u @ v \<and> c # u \<in> A \<and> v \<in> star A"
  using assms
proof (induction arbitrary: w rule: star.induct)
  case star_empty
  then show ?case by simp
next
  case (star_step u v)
  show ?case
  proof (cases u)
    case Nil
    with star_step show ?thesis by simp
  next
    case (Cons d u')
    with star_step.prems have "d = c" "w = u' @ v" by simp_all
    with Cons star_step.hyps show ?thesis by blast
  qed
qed

lemma star_Cons:
  "c # w \<in> star A \<longleftrightarrow> (\<exists>u v. w = u @ v \<and> c # u \<in> A \<and> v \<in> star A)"
proof
  assume "c # w \<in> star A"
  then show "\<exists>u v. w = u @ v \<and> c # u \<in> A \<and> v \<in> star A"
    by (rule star_Cons_split) simp
next
  assume "\<exists>u v. w = u @ v \<and> c # u \<in> A \<and> v \<in> star A"
  then obtain u v where "w = u @ v" "c # u \<in> A" "v \<in> star A" by blast
  then show "c # w \<in> star A"
    using star_step [of "c # u" A v] by simp
qed

lemma deriv_lang: "w \<in> lang (deriv c r) \<longleftrightarrow> c # w \<in> lang r"
proof (induction r arbitrary: w)
  case (Seq r s)
  then show ?case
    by (auto simp: conc_Cons nullable_lang) (auto simp: conc_def)
next
  case (Star r)
  then show ?case
    by (auto simp: star_Cons) (auto simp: conc_def)
qed auto

lemma matches_lang: "matches r w \<longleftrightarrow> w \<in> lang r"
  by (induction w arbitrary: r) (simp_all add: nullable_lang deriv_lang)


lemma star_Digit: "star (lang Digit) = {s. list_all is_digit s}"
proof (intro set_eqI iffI)
  fix s assume "s \<in> star (lang Digit)"
  then show "s \<in> {s. list_all is_digit s}"
    by (induction rule: star.induct) auto
next
  fix s assume "s \<in> {s. list_all is_digit s}"
  then have "list_all is_digit s" by simp
  then show "s \<in> star (lang Digit)"
  proof (induction s)
    case Nil
    show ?case by (rule star_empty)
  next
    case (Cons c s)
    then have "[c] \<in> lang Digit" "s \<in> star (lang Digit)" by simp_all
    from star_step [OF this] show ?case by simp
  qed
qed

lemma star_digit_set: "star {[c] | c. is_digit c} = {s. list_all is_digit s}"
  using star_Digit by simp

lemma lang_Plus_Digit: "lang (Plus Digit) = {s. digits s}"
proof (intro set_eqI iffI)
  fix s assume "s \<in> lang (Plus Digit)"
  then show "s \<in> {s. digits s}"
    by (auto simp: Plus_def star_digit_set conc_def digits_def)
next
  fix s assume "s \<in> {s. digits s}"
  then obtain c t where "s = c # t" "is_digit c" "list_all is_digit t"
    by (cases s) (auto simp: digits_def)
  then have "s = [c] @ t \<and> [c] \<in> lang Digit \<and> t \<in> star (lang Digit)"
    by (simp add: star_digit_set)
  then show "s \<in> lang (Plus Digit)"
    unfolding Plus_def lang.simps conc_def by blast
qed

lemma lang_Opt: "lang (Opt r) = insert [] (lang r)"
  by (simp add: Opt_def)

lemma lang_lit: "lang (lit s) = {s}"
  by (induction s) (auto simp: conc_def)

lemma concI: "u \<in> A \<Longrightarrow> v \<in> B \<Longrightarrow> u @ v \<in> conc A B"
  by (auto simp: conc_def)

lemma concE:
  assumes "w \<in> conc A B"
  obtains u v where "w = u @ v" "u \<in> A" "v \<in> B"
  using assms by (auto simp: conc_def)

lemma conc4:
  "w \<in> conc (conc Sg (conc Nm Fr)) Ut \<longleftrightarrow>
     (\<exists>sg nm fr ut. w = sg @ nm @ fr @ ut \<and> sg \<in> Sg \<and> nm \<in> Nm \<and> fr \<in> Fr \<and> ut \<in> Ut)"
proof
  assume "w \<in> conc (conc Sg (conc Nm Fr)) Ut"
  then obtain x ut where 1: "w = x @ ut" "x \<in> conc Sg (conc Nm Fr)" "ut \<in> Ut"
    by (rule concE)
  from 1(2) obtain sg y where 2: "x = sg @ y" "sg \<in> Sg" "y \<in> conc Nm Fr"
    by (rule concE)
  from 2(3) obtain nm fr where 3: "y = nm @ fr" "nm \<in> Nm" "fr \<in> Fr"
    by (rule concE)
  from 1 2 3 have "w = sg @ nm @ fr @ ut \<and> sg \<in> Sg \<and> nm \<in> Nm \<and> fr \<in> Fr \<and> ut \<in> Ut"
    by simp
  then show "\<exists>sg nm fr ut. w = sg @ nm @ fr @ ut \<and> sg \<in> Sg \<and> nm \<in> Nm \<and> fr \<in> Fr \<and> ut \<in> Ut"
    by blast
next
  assume "\<exists>sg nm fr ut. w = sg @ nm @ fr @ ut \<and> sg \<in> Sg \<and> nm \<in> Nm \<and> fr \<in> Fr \<and> ut \<in> Ut"
  then obtain sg nm fr ut where w: "w = sg @ nm @ fr @ ut"
    and m: "sg \<in> Sg" "nm \<in> Nm" "fr \<in> Fr" "ut \<in> Ut" by blast
  from m have "(sg @ (nm @ fr)) @ ut \<in> conc (conc Sg (conc Nm Fr)) Ut"
    by (intro concI)
  with w show "w \<in> conc (conc Sg (conc Nm Fr)) Ut" by simp
qed

lemma lang_sign: "a \<in> lang (Opt (Sym (CHR ''-''))) \<longleftrightarrow> a = [] \<or> a = ''-''"
  by (auto simp: lang_Opt)

lemma lang_frac:
  "c \<in> lang (Opt (Seq (Sym (CHR ''.'')) (Plus Digit))) \<longleftrightarrow>
     c = [] \<or> (\<exists>f. c = CHR ''.'' # f \<and> digits f)"
  by (auto simp: lang_Opt lang_Plus_Digit conc_def)

lemma lang_pattern: "s \<in> lang pattern \<longleftrightarrow> is_duration s"
proof -
  have "s \<in> lang pattern \<longleftrightarrow>
          s = ''-1'' \<or> s = ''0'' \<or>
          s \<in> conc (conc (lang (Opt (Sym (CHR ''-''))))
                       (conc (lang (Plus Digit))
                          (lang (Opt (Seq (Sym (CHR ''.'')) (Plus Digit))))))
                 ({''ms''} \<union> ({''s''} \<union> ({''m''} \<union> ({''h''} \<union> ({''d''} \<union> {''w''})))))"
    by (auto simp add: pattern_def lang_lit simp del: lit.simps)
  then show ?thesis
    by (simp only: conc4 lang_sign lang_frac lang_Plus_Digit is_duration_def mem_Collect_eq
        Un_iff singleton_iff list.set insert_iff empty_iff simp_thms)
qed

lemma matches_pattern: "matches pattern s \<longleftrightarrow> is_duration s"
  by (simp only: matches_lang lang_pattern)

lemma re_match_pattern:
  "re_match pattern s \<longleftrightarrow>
     is_duration s \<or> (s \<noteq> [] \<and> last s = CHR 0x0A \<and> is_duration (butlast s))"
  by (simp only: re_match_def matches_pattern)

text \<open>
  C6. A duration that matches the pattern is stored as the new \<open>JWT_EXPIRES_IN\<close>; any
  other duration leaves the state as it was; in both cases the value returned is the
  \<open>JWT_EXPIRES_IN\<close> in effect after the call. \<open>2w\<close>, \<open>-1\<close> and \<open>0\<close> match,
  \<open>abc\<close> does not.
\<close>

theorem update_token_expires_duration_spec:
  "(re_match pattern d \<longrightarrow>
      update_token_expires_duration d st = (d, st\<lparr>JWT_EXPIRES_IN := d\<rparr>)) \<and>
   (\<not> re_match pattern d \<longrightarrow>
      update_token_expires_duration d st = (JWT_EXPIRES_IN st, st)) \<and>
   fst (update_token_expires_duration d st) =
     JWT_EXPIRES_IN (snd (update_token_expires_duration d st)) \<and>
   re_match pattern ''2w'' \<and> re_match pattern ''-1'' \<and> re_match pattern ''0'' \<and>
   \<not> re_match pattern ''abc''"
  by (simp add: update_token_expires_duration_def Let_def match_examples)

theorem update_token_expires_duration_spec_witness:
  "update_token_expires_duration ''2w'' empty_state =
     (''2w'', empty_state\<lparr>JWT_EXPIRES_IN := ''2w''\<rparr>) \<and>
   update_token_expires_duration ''abc'' empty_state = (''-1'', empty_state)"
  using update_token_expires_duration_spec [of "''2w''" empty_state]
    update_token_expires_duration_spec [of "''abc''" empty_state]
  by (simp add: empty_state_def)

subsection \<open>C7: the SSO callback for an existing user\<close>

lemma distinct_id_unique:
  assumes "distinct (map user_id us)" and "u \<in> set us" and "v \<in> set us"
    and "user_id v = user_id u"
  shows "v = u"
  using assms by (meson distinct_map inj_on_def)

lemma distinct_ids_signup:
  assumes "distinct (map user_id (users st))"
  shows "distinct (map user_id (users (snd (signup env f nid st))))"
  using assms
  by (auto simp: signup_def Let_def insert_new_auth_def list_ex_iff
      split: if_splits option.splits prod.splits)

lemma distinct_ids_add_user:
  assumes "distinct (map user_id (users st))"
  shows "distinct (map user_id (users (snd (add_user env f nid st))))"
  using assms
  by (auto simp: add_user_def Let_def insert_new_auth_def list_ex_iff
      split: if_splits option.splits prod.splits)

lemma get_user_by_email_SomeD:
  "get_user_by_email e us = Some u \<Longrightarrow> u \<in> set us \<and> user_email u = e"
  by (auto simp: get_user_by_email_def find_Some_iff)

lemma get_user_by_id_distinct:
  assumes "distinct (map user_id us)" and "u \<in> set us"
  shows "get_user_by_id (user_id u) us = Some u"
proof (cases "get_user_by_id (user_id u) us")
  case None
  with assms(2) show ?thesis by (auto simp: get_user_by_id_def find_None_iff)
next
  case (Some v)
  then have "v \<in> set us" "user_id v = user_id u"
    by (auto simp: get_user_by_id_def find_Some_iff)
  with assms Some show ?thesis using distinct_id_unique by blast
qed

lemma update_user_by_id_distinct:
  assumes "distinct (map user_id us)" and "u \<in> set us"
  shows "update_user_by_id (user_id u) g us =
           (Some (g u), map (\<lambda>v. if v = u then g u else v) us)"
proof -
  have "map (\<lambda>v. if user_id v = user_id u then g v else v) us =
        map (\<lambda>v. if v = u then g u else v) us"
    using assms by (intro map_cong refl) (auto dest: distinct_id_unique)
  then show ?thesis
    by (simp add: update_user_by_id_def get_user_by_id_distinct [OF assms])
qed

text \<open>
  C7. For an SSO callback whose federated email has a local user \<open>u\<close>, in a store with
  unique ids, the callback succeeds, the store afterwards is the store before with
  \<open>u\<close> replaced by \<open>u\<close> with its \<open>extra_sso\<close> set to the serialised identity (role,
  password hash and every other field of \<open>u\<close>, every other record and the
  configuration are as before), and the payload is that of the rewritten record.
\<close>

theorem signin_callback_existing_user:
  assumes "sso_email su = Some em"
    and "get_user_by_email (lower em) (users st) = Some u"
    and "distinct (map user_id (users st))"
  shows "signin_callback env (Some su) rand_password nid st =
           (Inr (session_payload (create_token env (user_id u) (Some (JWT_EXPIRES_IN st)))
                   (u\<lparr>user_extra_sso := Some (sso_user_json_str su)\<rparr>)
                   (Some (sso_user_json_str su))),
            st\<lparr>users := map (\<lambda>v. if v = u
                                  then u\<lparr>user_extra_sso := Some (sso_user_json_str su)\<rparr>
                                  else v) (users st)\<rparr>)"
proof -
  from get_user_by_email_SomeD [OF assms(2)] have mem: "u \<in> set (users st)" by simp
  show ?thesis
    using assms(1,2)
    by (simp add: signin_callback_def update_user_by_id_distinct [OF assms(3) mem]
        callback_finish_def)
qed


lemma lower_Alice: "lower ''Alice@Example.COM'' = ''alice@example.com''"
  by code_simp

theorem signin_callback_existing_user_witness:
  "signin_callback example_env
     (Some \<lparr>sso_email = Some ''Alice@Example.COM'', sso_display_name = ''Alice A.'',
            sso_user_json_str = ''{new}''\<rparr>) ''pw'' ''u3''
     (empty_state\<lparr>users := [alice, carol]\<rparr>) =
     (Inr \<lparr>resp_token = ''tok:u1'', resp_token_type = ''Bearer'', resp_id = ''u1'',
           resp_email = ''alice@example.com'', resp_name = ''Alice'', resp_role = ''admin'',
           resp_profile_image_url = ''/user.png'', resp_extra_sso = Some ''{new}''\<rparr>,
      empty_state\<lparr>users := [alice\<lparr>user_extra_sso := Some ''{new}''\<rparr>, carol]\<rparr>)"
  using signin_callback_existing_user
    [of "\<lparr>sso_email = Some ''Alice@Example.COM'', sso_display_name = ''Alice A.'',
           sso_user_json_str = ''{new}''\<rparr>" "''Alice@Example.COM''"
        "empty_state\<lparr>users := [alice, carol]\<rparr>" alice example_env "''pw''" "''u3''"]
  by (simp add: lower_Alice get_user_by_email_def empty_state_def alice_def carol_def
      session_payload_def example_env_def)

subsection \<open>C8: the life cycle of an API key\<close>

lemma find_map_id:
  assumes "\<And>v. user_id (g v) = user_id v"
  shows "find (\<lambda>u. user_id u = i) (map (\<lambda>v. if user_id v = i then g v else v) us) =
         map_option g (find (\<lambda>u. user_id u = i) us)"
  using assms by (induction us) auto

lemma api_key_after_update:
  "get_user_api_key_by_id i (snd (update_user_api_key_by_id i k us)) =
     (case get_user_by_id i us of None \<Rightarrow> None | Some _ \<Rightarrow> k)"
  by (auto simp: get_user_api_key_by_id_def update_user_api_key_by_id_def
      update_user_by_id_def get_user_by_id_def find_map_id split: option.splits)

text \<open>
  C8. When \<open>create_api_key_\<close> succeeds with a generated key (a key is not the empty
  string), \<open>get_api_key\<close> for the same user returns the key \<open>create_api_key_\<close>
  returned; after \<open>delete_api_key\<close>, \<open>get_api_key\<close> for the same user fails with
  \<open>API_KEY_NOT_FOUND\<close>.
\<close>

theorem api_key_lifecycle:
  "(create_api_key_route api_key user st = (Inr r, st') \<and> api_key \<noteq> [] \<longrightarrow>
      r = api_key \<and> get_api_key user st' = Inr r) \<and>
   get_api_key user (snd (delete_api_key user st)) = Inl (HTTPException 404 API_KEY_NOT_FOUND)"
proof -
  have del: "get_api_key user (snd (delete_api_key user st)) =
               Inl (HTTPException 404 API_KEY_NOT_FOUND)"
    using api_key_after_update [of "user_id user" None "users st"]
    by (auto simp: get_api_key_def delete_api_key_def split: prod.splits option.splits)
  have cre: "r = api_key \<and> get_api_key user st' = Inr r"
    if "create_api_key_route api_key user st = (Inr r, st')" and "api_key \<noteq> []"
  proof -
    from that(1)
    have ok: "fst (update_user_api_key_by_id (user_id user) (Some api_key) (users st))"
      and r: "r = api_key"
      and st': "users st' =
                  snd (update_user_api_key_by_id (user_id user) (Some api_key) (users st))"
      by (auto simp: create_api_key_route_def split: prod.splits if_splits)
    from ok have "get_user_by_id (user_id user) (users st) \<noteq> None"
      by (auto simp: update_user_api_key_by_id_def update_user_by_id_def split: option.splits)
    with api_key_after_update [of "user_id user" "Some api_key" "users st"] that(2) r
    show ?thesis by (auto simp: get_api_key_def st')
  qed
  from del cre show ?thesis by blast
qed

theorem api_key_lifecycle_witness:
  "create_api_key_route ''sk-1'' alice (empty_state\<lparr>users := [alice, carol]\<rparr>) =
     (Inr ''sk-1'', empty_state\<lparr>users := [alice\<lparr>user_api_key := Some ''sk-1''\<rparr>, carol]\<rparr>) \<and>
   get_api_key alice (empty_state\<lparr>users := [alice\<lparr>user_api_key := Some ''sk-1''\<rparr>, carol]\<rparr>) =
     Inr ''sk-1'' \<and>
   get_api_key carol (snd (delete_api_key carol (empty_state\<lparr>users := [alice, carol]\<rparr>))) =
     Inl (HTTPException 404 API_KEY_NOT_FOUND)"
proof -
  let ?st = "empty_state\<lparr>users := [alice, carol]\<rparr>"
  let ?st' = "empty_state\<lparr>users := [alice\<lparr>user_api_key := Some ''sk-1''\<rparr>, carol]\<rparr>"
  have c: "create_api_key_route ''sk-1'' alice ?st = (Inr ''sk-1'', ?st')"
    by (simp add: create_api_key_route_def update_user_api_key_by_id_def
        update_user_by_id_def get_user_by_id_def alice_def carol_def empty_state_def)
  from api_key_lifecycle [of "''sk-1''" alice ?st "''sk-1''" ?st'] c
  have "get_api_key alice ?st' = Inr ''sk-1''" by simp
  moreover from api_key_lifecycle [of "''sk-1''" carol ?st "''sk-1''" ?st']
  have "get_api_key carol (snd (delete_api_key carol ?st)) =
          Inl (HTTPException 404 API_KEY_NOT_FOUND)" by simp
  ultimately show ?thesis using c by simp
qed


subsection \<open>C9: a webhook that fails\<close>

text \<open>
  C9. When sign-up is enabled, the email is well-formed and not registered and the
  record id is fresh (the signup creates a user), a webhook URL is configured and the
  delivery to it fails, \<open>signup\<close> still returns the session payload of the new user,
  and the state afterwards is the state before with the new record appended to the
  store.
\<close>

theorem signup_webhook_failure:
  assumes "ENABLE_SIGNUP st"
    and "validate_email_format env (lower (form_email f))"
    and "get_user_by_email (lower (form_email f)) (users st) = None"
    and "\<not> list_ex (\<lambda>u. user_id u = nid) (users st)"
    and "WEBHOOK_URL st = Some url" and "url \<noteq> []" and "\<not> webhook_delivers env url"
  shows "signup env f nid st =
           (Inr (session_payload (create_token env nid (Some (JWT_EXPIRES_IN st)))
                   (signup_user env f nid st) (Some '''')),
            st\<lparr>users := users st @ [signup_user env f nid st]\<rparr>)"
proof -
  have "signup_outbox env f st = webhook_outbox st"
    using assms(5-7) by (simp add: signup_outbox_def post_webhook_def)
  with signup_success [OF assms(1-4)] show ?thesis by simp
qed

theorem signup_webhook_failure_witness:
  "signup example_env bob_form ''u2''
     (empty_state\<lparr>users := [alice], WEBHOOK_URL := Some ''http://hook''\<rparr>) =
     (Inr \<lparr>resp_token = ''tok:u2'', resp_token_type = ''Bearer'', resp_id = ''u2'',
           resp_email = ''bob@example.com'', resp_name = ''Bob'', resp_role = ''pending'',
           resp_profile_image_url = ''/user.png'', resp_extra_sso = Some ''''\<rparr>,
      empty_state\<lparr>users :=
        [alice,
         \<lparr>user_id = ''u2'', user_email = ''bob@example.com'', user_password_hash = ''h:pw'',
          user_name = ''Bob'', user_role = ''pending'', user_profile_image_url = ''/user.png'',
          user_extra_sso = None, user_api_key = None\<rparr>],
        WEBHOOK_URL := Some ''http://hook''\<rparr>)"
  using signup_webhook_failure
    [of "empty_state\<lparr>users := [alice], WEBHOOK_URL := Some ''http://hook''\<rparr>"
        example_env bob_form "''u2''" "''http://hook''"]
  by (simp add: example_env_def bob_form_def empty_state_def alice_def lower_bob
      get_user_by_email_def get_num_users_def session_payload_def signup_user_def)

text \<open>
  With a delivery that succeeds the same call returns the same payload and builds the
  same store; only the outbox differs.
\<close>

lemma signup_webhook_delivered:
  assumes "ENABLE_SIGNUP st"
    and "validate_email_format env (lower (form_email f))"
    and "get_user_by_email (lower (form_email f)) (users st) = None"
    and "\<not> list_ex (\<lambda>u. user_id u = nid) (users st)"
    and "WEBHOOK_URL st = Some url" and "url \<noteq> []" and "webhook_delivers env url"
  shows "signup env f nid st =
           (Inr (session_payload (create_token env nid (Some (JWT_EXPIRES_IN st)))
                   (signup_user env f nid st) (Some '''')),
            st\<lparr>users := users st @ [signup_user env f nid st],
               webhook_outbox := webhook_outbox st @ [(url, USER_SIGNUP env (form_name f))]\<rparr>)"
proof -
  have "signup_outbox env f st = webhook_outbox st @ [(url, USER_SIGNUP env (form_name f))]"
    using assms(5-7) by (simp add: signup_outbox_def post_webhook_def)
  with signup_success [OF assms(1-4)] show ?thesis by simp
qed

subsection \<open>C10: the \<open>extra_sso\<close> of the session payload\<close>

lemma lower_Dan: "lower ''Dan@Example.com'' = ''dan@example.com''"
  by code_simp

lemma signin_finish_extra:
  "signin_finish env user st = (Inr p, st') \<Longrightarrow> resp_extra_sso p = Some ''''"
  by (auto simp: signin_finish_def session_payload_def split: option.splits)

lemma signin_extra:
  assumes "signin env headers sf rand_password nid st = (Inr p, st')"
  shows "resp_extra_sso p = Some ''''"
  using assms
  by (auto simp: signin_def Let_def split: option.splits if_splits prod.splits sum.splits
      dest: signin_finish_extra)

lemma add_user_extra:
  assumes "add_user env af nid st = (Inr p, st')"
  shows "resp_extra_sso p = Some ''''"
  using assms
  by (auto simp: add_user_def Let_def session_payload_def
      split: option.splits if_splits prod.splits)

lemma update_user_by_id_mem:
  assumes "update_user_by_id i g us = (Some u', us')"
  shows "u' \<in> set us'"
proof -
  from assms obtain u where u: "get_user_by_id i us = Some u" "u' = g u"
    and us': "us' = map (\<lambda>v. if user_id v = i then g v else v) us"
    by (auto simp: update_user_by_id_def split: option.splits)
  from u(1) have "u \<in> set us" "user_id u = i"
    by (auto simp: get_user_by_id_def find_Some_iff)
  then have "(if user_id u = i then g u else u) \<in> set us'"
    unfolding us' by (intro imageI [of u "set us", folded set_map])
  with \<open>user_id u = i\<close> u(2) show ?thesis by simp
qed

lemma callback_finish_extra:
  assumes "callback_finish env u st = (Inr p, st')" and "u \<in> set (users st)"
  shows "\<exists>v \<in> set (users st'). resp_id p = user_id v \<and> resp_extra_sso p = user_extra_sso v"
  using assms by (auto simp: callback_finish_def session_payload_def)

lemma signin_callback_extra:
  assumes "signin_callback env verified rand_password nid st = (Inr p, st')"
  shows "\<exists>v \<in> set (users st'). resp_id p = user_id v \<and> resp_extra_sso p = user_extra_sso v"
proof -
  from assms obtain u st1 where fin: "callback_finish env u st1 = (Inr p, st')"
    and mem: "u \<in> set (users st1)"
    by (auto simp: signin_callback_def callback_error_def Let_def update_user_role_by_id_def
        split: option.splits prod.splits sum.splits dest: update_user_by_id_mem)
  then show ?thesis by (rule callback_finish_extra)
qed

text \<open>
  C10. Whenever \<open>signin\<close>, \<open>signup\<close> or \<open>add_user\<close> succeeds, the \<open>extra_sso\<close>
  of the payload is the empty string, whatever the store holds; the payload of a
  successful SSO callback carries the \<open>extra_sso\<close> of a stored record with the
  payload's id.
\<close>

theorem session_payload_extra_sso:
  "(signin env headers sf rand_password nid st = (Inr p, st') \<longrightarrow>
      resp_extra_sso p = Some '''') \<and>
   (signup env f nid st = (Inr p, st') \<longrightarrow> resp_extra_sso p = Some '''') \<and>
   (add_user env af nid st = (Inr p, st') \<longrightarrow> resp_extra_sso p = Some '''') \<and>
   (signin_callback env verified rand_password nid st = (Inr p, st') \<longrightarrow>
      (\<exists>v \<in> set (users st'). resp_id p = user_id v \<and> resp_extra_sso p = user_extra_sso v))"
proof (intro conjI impI)
  assume "signin env headers sf rand_password nid st = (Inr p, st')"
  then show "resp_extra_sso p = Some ''''" by (rule signin_extra)
next
  assume "signup env f nid st = (Inr p, st')"
  from signup_InrD [OF this] show "resp_extra_sso p = Some ''''"
    by (simp add: session_payload_def)
next
  assume "add_user env af nid st = (Inr p, st')"
  then show "resp_extra_sso p = Some ''''" by (rule add_user_extra)
next
  assume "signin_callback env verified rand_password nid st = (Inr p, st')"
  then show "\<exists>v \<in> set (users st'). resp_id p = user_id v \<and>
               resp_extra_sso p = user_extra_sso v"
    by (rule signin_callback_extra)
qed

theorem session_payload_extra_sso_witness:
  "map_sum id resp_extra_sso
     (fst (signin example_env Map.empty
             \<lparr>signin_email = ''Alice@Example.COM'', signin_password = ''secret''\<rparr>
             ''r'' ''u3'' (empty_state\<lparr>users := [alice, carol]\<rparr>))) = Inr (Some '''') \<and>
   user_extra_sso alice = Some ''{old}'' \<and>
   map_sum id resp_extra_sso
     (fst (signup example_env (bob_form\<lparr>form_extra_sso := Some ''{bob}''\<rparr>) ''u3''
             (empty_state\<lparr>users := [alice, carol]\<rparr>))) = Inr (Some '''') \<and>
   map_sum id resp_extra_sso
     (fst (add_user example_env
             \<lparr>add_email = ''Dan@Example.com'', add_password = ''pw'', add_name = ''Dan'',
              add_profile_image_url = ''/user.png'', add_role = ''user''\<rparr> ''u3''
             (empty_state\<lparr>users := [alice, carol]\<rparr>))) = Inr (Some '''') \<and>
   map_sum id resp_extra_sso
     (fst (signin_callback example_env
             (Some \<lparr>sso_email = Some ''Alice@Example.COM'', sso_display_name = ''Alice A.'',
                    sso_user_json_str = ''{new}''\<rparr>) ''r'' ''u3''
             (empty_state\<lparr>users := [alice, carol]\<rparr>))) = Inr (Some ''{new}'')"
proof -
  let ?st = "empty_state\<lparr>users := [alice, carol]\<rparr>"
  let ?sf = "\<lparr>signin_email = ''Alice@Example.COM'', signin_password = ''secret''\<rparr>"
  let ?f = "bob_form\<lparr>form_extra_sso := Some ''{bob}''\<rparr>"
  let ?af = "\<lparr>add_email = ''Dan@Example.com'', add_password = ''pw'', add_name = ''Dan'',
              add_profile_image_url = ''/user.png'', add_role = ''user''\<rparr>"
  let ?v = "Some \<lparr>sso_email = Some ''Alice@Example.COM'', sso_display_name = ''Alice A.'',
                   sso_user_json_str = ''{new}''\<rparr>"
  obtain p1 s1 where a: "signin example_env Map.empty ?sf ''r'' ''u3'' ?st = (Inr p1, s1)"
    by (simp add: signin_def example_env_def authenticate_user_def get_user_by_email_def
        lower_Alice empty_state_def alice_def signin_finish_def)
  obtain p2 s2 where b: "signup example_env ?f ''u3'' ?st = (Inr p2, s2)"
    by (simp add: signup_def example_env_def bob_form_def empty_state_def alice_def carol_def
        lower_bob get_user_by_email_def insert_new_auth_def Let_def)
  obtain p3 s3 where c: "add_user example_env ?af ''u3'' ?st = (Inr p3, s3)"
    by (simp add: add_user_def example_env_def empty_state_def alice_def carol_def
        lower_Dan get_user_by_email_def insert_new_auth_def Let_def)
  from session_payload_extra_sso
    [of example_env Map.empty ?sf "''r''" "''u3''" ?st p1 s1 ?f ?af ?v] a
  have "resp_extra_sso p1 = Some ''''" by simp
  moreover from session_payload_extra_sso
    [of example_env Map.empty ?sf "''r''" "''u3''" ?st p2 s2 ?f ?af ?v] b
  have "resp_extra_sso p2 = Some ''''" by simp
  moreover from session_payload_extra_sso
    [of example_env Map.empty ?sf "''r''" "''u3''" ?st p3 s3 ?f ?af ?v] c
  have "resp_extra_sso p3 = Some ''''" by simp
  moreover obtain p4 s4 where d: "signin_callback example_env ?v ''r'' ''u3'' ?st = (Inr p4, s4)"
    and e: "resp_extra_sso p4 = Some ''{new}''"
    by (simp add: signin_callback_def example_env_def get_user_by_email_def lower_Alice
        empty_state_def alice_def carol_def update_user_by_id_def get_user_by_id_def
        callback_finish_def session_payload_def)
  moreover from session_payload_extra_sso
    [of example_env Map.empty ?sf "''r''" "''u3''" ?st p4 s4 ?f ?af ?v] d
  have "\<exists>v \<in> set (users s4). resp_id p4 = user_id v \<and> resp_extra_sso p4 = user_extra_sso v"
    by simp
  ultimately show ?thesis using a b c by (simp add: alice_def)
qed

end
